theory Spec2Isabelle
  imports Complex_Main "HOL-Library.Word"
begin

section \<open>JavaScript values used by the pipeline\<close>

text \<open>
  A string is a \<open>string\<close> whose characters stand for UTF-16 code units below 256, so that
  \<open>length\<close> is JavaScript's \<open>.length\<close>. A thrown \<open>Error\<close> is the value \<open>Error msg\<close>; a
  function that may throw returns \<open>error + 'a\<close>, with \<open>Inl\<close> the thrown error.

  A JavaScript \<open>number\<close> that the code computes with (an embedding component, a score, a
  distance, a threshold) is a \<open>number\<close>: an IEEE 754 double, with its rounding. A number
  that the code only stores, compares and copies (a page, a line, a confidence read from
  JSON) is the real it denotes. Counts and lengths are natural numbers or integers.
\<close>

datatype error = Error string

subsection \<open>IEEE 754 doubles\<close>

text \<open>
  A double is \<open>NaN\<close>, an infinity, the negative zero, or a finite value \<open>Num q\<close>, where \<open>q\<close>
  is the rational the double denotes; \<open>Num 0\<close> is the positive zero.
\<close>

datatype number = NaN | PosInf | NegInf | NegZero | Num rat

definition isInf :: "number \<Rightarrow> bool" where
  "isInf a = (a = PosInf \<or> a = NegInf)"

definition isZero :: "number \<Rightarrow> bool" where
  "isZero a = (a = NegZero \<or> a = Num 0)"

text \<open>The sign bit of a number that is not \<open>NaN\<close>, and the value of a finite one.\<close>

fun isNeg :: "number \<Rightarrow> bool" where
  "isNeg NegInf = True"
| "isNeg NegZero = True"
| "isNeg (Num x) = (x < 0)"
| "isNeg a = False"

fun valueOf :: "number \<Rightarrow> rat" where
  "valueOf (Num x) = x"
| "valueOf a = 0"

definition signedInf :: "bool \<Rightarrow> number" where
  "signedInf negative = (if negative then NegInf else PosInf)"

definition signedZero :: "bool \<Rightarrow> number" where
  "signedZero negative = (if negative then NegZero else Num 0)"

text \<open>The number of binary digits of a positive integer.\<close>

function bitLength :: "int \<Rightarrow> nat" where
  "bitLength n = (if n \<le> 0 then 0 else Suc (bitLength (n div 2)))"
  by pat_completeness auto
termination
  by (relation "measure nat") auto

declare bitLength.simps [simp del]

text \<open>\<open>n\<close> times \<open>2 ^ e\<close> for \<open>e \<ge> 0\<close>, and \<open>n\<close> otherwise.\<close>

definition scale2 :: "int \<Rightarrow> int \<Rightarrow> int" where
  "scale2 n e = n * 2 ^ nat e"

definition pow2 :: "int \<Rightarrow> rat" where
  "pow2 u = of_int (scale2 1 u) / of_int (scale2 1 (- u))"

text \<open>For positive \<open>a\<close> and \<open>b\<close>, the exponent \<open>e\<close> with \<open>2 ^ e \<le> a / b < 2 ^ (e + 1)\<close>.\<close>

definition exponentOf :: "int \<Rightarrow> int \<Rightarrow> int" where
  "exponentOf a b =
     (let e = int (bitLength a) - int (bitLength b) in
      if scale2 b e \<le> scale2 a (- e) then e else e - 1)"

text \<open>
  For positive \<open>a\<close> and \<open>b\<close>, the integer nearest to \<open>(a / b) / 2 ^ u\<close>, the even one of the
  two when it is half way between them.
\<close>

definition nearestEven :: "int \<Rightarrow> int \<Rightarrow> int \<Rightarrow> int" where
  "nearestEven a b u =
     (let n = scale2 a (- u); d = scale2 b u; m = n div d; r = n mod d
      in if 2 * r < d then m else if d < 2 * r then m + 1 else if even m then m else m + 1)"

text \<open>
  Rounding to nearest, ties to even, in a binary format of precision \<open>p\<close> whose smallest
  positive value is \<open>2 ^ emin\<close> and which overflows to infinity at \<open>2 ^ emax\<close>: the
  rounded magnitude of \<open>a / b\<close>, \<open>None\<close> on overflow. A result that underflows to zero keeps
  the sign.
\<close>

definition roundMagnitude :: "nat \<Rightarrow> int \<Rightarrow> int \<Rightarrow> int \<Rightarrow> int \<Rightarrow> rat option" where
  "roundMagnitude p emin emax a b =
     (if a = 0 then Some 0
      else
        (let u = max (exponentOf a b - (int p - 1)) emin;
             v = of_int (nearestEven a b u) * pow2 u
         in if pow2 emax \<le> v then None else Some v))"

definition roundTo :: "nat \<Rightarrow> int \<Rightarrow> int \<Rightarrow> rat \<Rightarrow> number" where
  "roundTo p emin emax x =
     (case quotient_of x of
        (a, b) \<Rightarrow>
          (case roundMagnitude p emin emax \<bar>a\<bar> b of
             None \<Rightarrow> signedInf (a < 0)
           | Some v \<Rightarrow> if v = 0 then signedZero (a < 0) else Num (if a < 0 then - v else v)))"

text \<open>The double, and the single-precision float, nearest to a rational.\<close>

definition double :: "rat \<Rightarrow> number" where
  "double x = roundTo 53 (- 1074) 1024 x"

definition float32 :: "rat \<Rightarrow> number" where
  "float32 x = roundTo 24 (- 149) 128 x"

text \<open>The operators \<open>-x\<close>, \<open>x + y\<close>, \<open>x - y\<close>, \<open>x * y\<close> and \<open>x / y\<close> on doubles.\<close>

fun fneg :: "number \<Rightarrow> number" where
  "fneg NaN = NaN"
| "fneg PosInf = NegInf"
| "fneg NegInf = PosInf"
| "fneg NegZero = Num 0"
| "fneg (Num x) = (if x = 0 then NegZero else Num (- x))"

definition fadd :: "number \<Rightarrow> number \<Rightarrow> number" where
  "fadd a b =
     (if a = NaN \<or> b = NaN then NaN
      else if isInf a then (if isInf b \<and> a \<noteq> b then NaN else a)
      else if isInf b then b
      else
        (let z = valueOf a + valueOf b
         in if z = 0 then (if a = NegZero \<and> b = NegZero then NegZero else Num 0)
            else double z))"

definition fsub :: "number \<Rightarrow> number \<Rightarrow> number" where
  "fsub a b = fadd a (fneg b)"

definition fmul :: "number \<Rightarrow> number \<Rightarrow> number" where
  "fmul a b =
     (if a = NaN \<or> b = NaN then NaN
      else if isInf a \<or> isInf b
      then (if isZero a \<or> isZero b then NaN else signedInf (isNeg a \<noteq> isNeg b))
      else
        (let z = valueOf a * valueOf b
         in if z = 0 then signedZero (isNeg a \<noteq> isNeg b) else double z))"

definition fdiv :: "number \<Rightarrow> number \<Rightarrow> number" where
  "fdiv a b =
     (if a = NaN \<or> b = NaN then NaN
      else if isInf a then (if isInf b then NaN else signedInf (isNeg a \<noteq> isNeg b))
      else if isInf b then signedZero (isNeg a \<noteq> isNeg b)
      else if isZero b then (if isZero a then NaN else signedInf (isNeg a \<noteq> isNeg b))
      else if isZero a then signedZero (isNeg a \<noteq> isNeg b)
      else double (valueOf a / valueOf b))"

text \<open>
  \<open>Math.sqrt\<close>, correctly rounded. \<open>isqrt n\<close> is the integer square root, found bit by bit;
  the root of \<open>a / b\<close> is taken with more than 55 binary digits, and when it is not exact
  the half between it and its successor stands for the root, which rounds the same way.
\<close>

primrec isqrtFrom :: "int \<Rightarrow> nat \<Rightarrow> int \<Rightarrow> int" where
  "isqrtFrom n 0 r = (if (r + 1) * (r + 1) \<le> n then r + 1 else r)"
| "isqrtFrom n (Suc i) r =
     isqrtFrom n i (if (r + 2 ^ Suc i) * (r + 2 ^ Suc i) \<le> n then r + 2 ^ Suc i else r)"

definition isqrt :: "int \<Rightarrow> int" where
  "isqrt n = isqrtFrom n (bitLength n div 2 + 1) 0"

definition sqrtDouble :: "rat \<Rightarrow> number" where
  "sqrtDouble x =
     (case quotient_of x of
        (a, b) \<Rightarrow>
          (let k = 55 + bitLength b;
               s = isqrt ((a * 4 ^ k) div b)
           in if s * s * b = a * 4 ^ k then double (of_int s / 2 ^ k)
              else double (of_int (2 * s + 1) / 2 ^ (k + 1))))"

fun fsqrt :: "number \<Rightarrow> number" where
  "fsqrt NaN = NaN"
| "fsqrt PosInf = PosInf"
| "fsqrt NegInf = NaN"
| "fsqrt NegZero = NegZero"
| "fsqrt (Num x) = (if x < 0 then NaN else if x = 0 then Num 0 else sqrtDouble x)"

text \<open>
  The comparisons \<open>x < y\<close>, \<open>x === y\<close> and \<open>x >= y\<close>: false as soon as one side is \<open>NaN\<close>,
  and the two zeros are equal.
\<close>

definition numLess :: "number \<Rightarrow> number \<Rightarrow> bool" where
  "numLess a b =
     (if a = NaN \<or> b = NaN then False
      else if a = PosInf \<or> b = NegInf then False
      else if a = NegInf \<or> b = PosInf then True
      else valueOf a < valueOf b)"

definition numEq :: "number \<Rightarrow> number \<Rightarrow> bool" where
  "numEq a b = (a \<noteq> NaN \<and> b \<noteq> NaN \<and> (a = b \<or> isZero a \<and> isZero b))"

definition numGe :: "number \<Rightarrow> number \<Rightarrow> bool" where
  "numGe a b = (numLess b a \<or> numEq a b)"

text \<open>\<open>Math.floor\<close>, \<open>Math.max\<close> and \<open>Math.min\<close>.\<close>

fun floorNumber :: "number \<Rightarrow> number" where
  "floorNumber (Num x) = Num (of_int \<lfloor>x\<rfloor>)"
| "floorNumber a = a"

definition numMax :: "number \<Rightarrow> number \<Rightarrow> number" where
  "numMax a b =
     (if a = NaN \<or> b = NaN then NaN
      else if numLess a b then b
      else if numLess b a then a
      else if a = NegZero then b else a)"

definition numMin :: "number \<Rightarrow> number \<Rightarrow> number" where
  "numMin a b =
     (if a = NaN \<or> b = NaN then NaN
      else if numLess b a then b
      else if numLess a b then a
      else if b = NegZero then b else a)"

text \<open>
  \<open>ToIntegerOrInfinity\<close>, which array methods apply to an index argument: \<open>NaN\<close> is 0, a
  finite number is truncated towards zero; \<open>None\<close> stands for minus infinity and
  \<open>Some None\<close> for plus infinity.
\<close>

fun toIntegerOrInfinity :: "number \<Rightarrow> int option option" where
  "toIntegerOrInfinity NaN = Some (Some 0)"
| "toIntegerOrInfinity PosInf = Some None"
| "toIntegerOrInfinity NegInf = None"
| "toIntegerOrInfinity NegZero = Some (Some 0)"
| "toIntegerOrInfinity (Num x) = Some (Some (if x < 0 then - \<lfloor>- x\<rfloor> else \<lfloor>x\<rfloor>))"

text \<open>A thrown \<open>Error\<close> interpolated into a template string.\<close>

fun errorToString :: "error \<Rightarrow> string" where
  "errorToString (Error msg) = ''Error: '' @ msg"

subsection \<open>Strings and arrays\<close>

text \<open>
  The characters the regular expression class \<open>\s\<close> and \<open>String.prototype.trim\<close> treat as
  white space, among the code units below 256: tab, line feed, vertical tab, form feed,
  carriage return, space and the no-break space.
\<close>

definition isSpace :: "char \<Rightarrow> bool" where
  "isSpace c \<longleftrightarrow> c \<in> set [CHR 0x09, CHR 0x0A, CHR 0x0B, CHR 0x0C, CHR 0x0D, CHR 0x20, CHR 0xA0]"

text \<open>The class \<open>[.!?]\<close> of \<open>splitIntoSentences\<close>.\<close>

definition isTerminal :: "char \<Rightarrow> bool" where
  "isTerminal c \<longleftrightarrow> c \<in> set [CHR ''.'', CHR ''!'', CHR ''?'']"

text \<open>
  \<open>text.split(/[sep]+/)\<close>: the pieces between the maximal runs of separator characters.
  As in JavaScript a separator at either end gives an empty piece there, and the empty
  string gives one empty piece.
\<close>

function splitRuns :: "(char \<Rightarrow> bool) \<Rightarrow> string \<Rightarrow> string list" where
  "splitRuns sep s =
     (let piece = takeWhile (\<lambda>c. \<not> sep c) s;
          rest = dropWhile (\<lambda>c. \<not> sep c) s
      in if rest = [] then [piece]
         else piece # splitRuns sep (dropWhile sep (tl rest)))"
  by pat_completeness auto
termination
proof (relation "measure (\<lambda>(sep, s). length s)")
  show "wf (measure (\<lambda>(sep, s). length s))" by simp
next
  fix sep :: "char \<Rightarrow> bool" and s :: string and x xa
  assume x: "x = takeWhile (\<lambda>c. \<not> sep c) s"
    and xa: "xa = dropWhile (\<lambda>c. \<not> sep c) s" and ne: "xa \<noteq> []"
  have "length (dropWhile sep (tl xa)) \<le> length (tl xa)"
    by (rule length_dropWhile_le)
  also have "\<dots> < length xa" using ne by (cases xa) simp_all
  also have "\<dots> \<le> length s" unfolding xa by (rule length_dropWhile_le)
  finally show "((sep, dropWhile sep (tl xa)), (sep, s)) \<in> measure (\<lambda>(sep, s). length s)"
    by simp
qed

declare splitRuns.simps [simp del]

text \<open>\<open>String.prototype.trim\<close>.\<close>

definition trim :: "string \<Rightarrow> string" where
  "trim s = rev (dropWhile isSpace (rev (dropWhile isSpace s)))"

text \<open>\<open>Array.prototype.join(sep)\<close>.\<close>

fun joinWith :: "string \<Rightarrow> string list \<Rightarrow> string" where
  "joinWith sep [] = []"
| "joinWith sep [x] = x"
| "joinWith sep (x # y # ys) = x @ sep @ joinWith sep (y # ys)"

text \<open>
  \<open>Array.prototype.slice(start)\<close> and \<open>slice(0, end)\<close> for an integer argument: a negative
  argument counts from the end of the array.
\<close>

definition sliceFrom :: "int \<Rightarrow> 'a list \<Rightarrow> 'a list" where
  "sliceFrom start xs =
     (if start < 0 then drop (nat (int (length xs) + start)) xs else drop (nat start) xs)"

text \<open>\<open>Array.prototype.slice(start)\<close> for a start that is any number.\<close>

definition sliceFromNumber :: "number \<Rightarrow> 'a list \<Rightarrow> 'a list" where
  "sliceFromNumber start xs =
     (case toIntegerOrInfinity start of
        None \<Rightarrow> xs
      | Some None \<Rightarrow> []
      | Some (Some k) \<Rightarrow> sliceFrom k xs)"

definition sliceTo :: "int \<Rightarrow> 'a list \<Rightarrow> 'a list" where
  "sliceTo stop xs =
     (if stop < 0 then take (nat (int (length xs) + stop)) xs else take (nat stop) xs)"

text \<open>The value \<open>JSON.parse\<close> returns. An object is the list of its keys and values.\<close>

datatype json =
  JNull | JBool bool | JNum real | JStr string | JArr "json list" | JObj "(string \<times> json) list"

section \<open>DocumentProcessor (document-processor.ts)\<close>

datatype SourceKind = Pdf | Docx | Xlsx | Csv | Text | Url

record ChunkMetadata =
  sourceKind :: SourceKind
  sourcePathOrUrl :: string
  page :: "real option"
  lineStart :: "real option"
  lineEnd :: "real option"
  section_md :: "string option"
  table_md :: "string option"
  fileHash :: string
  chunkSize_md :: nat
  totalChunks :: nat

record DocumentChunk =
  chunk_id :: string
  documentId :: string
  chunkIndex :: nat
  content :: string
  metadata :: ChunkMetadata
  embedding :: "number list option"

text \<open>
  The chunking configuration. The sizes are character counts, modelled as natural numbers;
  where the code divides and multiplies them they are the doubles of the same value.
\<close>

record ChunkingConfig =
  chunkSize :: nat
  chunkOverlap :: nat
  preserveStructure :: bool
  minChunkSize :: nat

record BaseMetadata =
  base_documentId :: string
  base_sourceKind :: SourceKind
  base_sourcePathOrUrl :: string
  base_fileHash :: string
  base_pageCount :: "nat option"

definition splitIntoSentences :: "string \<Rightarrow> string list" where
  "splitIntoSentences text =
     filter (\<lambda>s. length s > 0) (map trim (splitRuns isTerminal text))"

text \<open>
  \<open>getOverlapText\<close>: \<open>overlapWords = Math.floor(words.length * (chunkOverlap / chunkSize))\<close>,
  computed in doubles with a rounding after the division and after the multiplication, and
  \<open>words.slice(-overlapWords).join(' ')\<close>. With \<open>chunkSize = 0\<close> the count is \<open>Infinity\<close> or
  \<open>NaN\<close>, and \<open>slice\<close> then starts at index 0, as it does for \<open>slice(-0)\<close> when the count is
  0: all the words are kept.
\<close>

definition overlapWords :: "ChunkingConfig \<Rightarrow> nat \<Rightarrow> number" where
  "overlapWords cfg n =
     floorNumber
       (fmul (Num (of_nat n))
          (fdiv (Num (of_nat (chunkOverlap cfg))) (Num (of_nat (chunkSize cfg)))))"

definition getOverlapText :: "ChunkingConfig \<Rightarrow> string \<Rightarrow> string" where
  "getOverlapText cfg text =
     (let words = splitRuns isSpace text
      in joinWith '' '' (sliceFromNumber (fneg (overlapWords cfg (length words))) words))"

text \<open>
  \<open>estimateLines\<close>: \<open>Math.ceil(text.length / 80)\<close>. For every length a string can have
  (below \<open>2 ^ 53\<close>) the rounded quotient of the code has the ceiling of the exact one.
\<close>

definition estimateLines :: "string \<Rightarrow> int" where
  "estimateLines text = \<lceil>real (length text) / 80\<rceil>"

text \<open>
  \<open>createChunk\<close>. The identifier is \<open>crypto.randomUUID()\<close>: the caller passes the value
  drawn.
\<close>

definition createChunk ::
  "string \<Rightarrow> string \<Rightarrow> nat \<Rightarrow> BaseMetadata \<Rightarrow> int \<Rightarrow> int \<Rightarrow> DocumentChunk" where
  "createChunk uuid c idx base ls le =
     \<lparr> chunk_id = uuid,
       documentId = base_documentId base,
       chunkIndex = idx,
       content = c,
       metadata = \<lparr> sourceKind = base_sourceKind base,
                    sourcePathOrUrl = base_sourcePathOrUrl base,
                    page = None,
                    lineStart = Some (of_int ls),
                    lineEnd = Some (of_int le),
                    section_md = None,
                    table_md = None,
                    fileHash = base_fileHash base,
                    chunkSize_md = length c,
                    totalChunks = 0 \<rparr>,
       embedding = None \<rparr>"

text \<open>The local variables of \<open>chunkText\<close> that its loop updates.\<close>

record ChunkState =
  chunks :: "DocumentChunk list"
  currentChunk :: string
  currentChunkIndex :: nat
  currentLineStart :: int
  currentLineEnd :: int

definition initialState :: ChunkState where
  "initialState =
     \<lparr> chunks = [], currentChunk = [], currentChunkIndex = 0,
       currentLineStart = 1, currentLineEnd = 1 \<rparr>"

text \<open>
  One iteration of the \<open>for\<close> loop of \<open>chunkText\<close>, on the sentence \<open>sentence\<close>. The random
  identifiers are the function \<open>uuids\<close>: the chunk of index \<open>k\<close> gets \<open>uuids k\<close>.
\<close>

definition chunkStep ::
  "ChunkingConfig \<Rightarrow> (nat \<Rightarrow> string) \<Rightarrow> BaseMetadata \<Rightarrow> string \<Rightarrow> ChunkState \<Rightarrow> ChunkState" where
  "chunkStep cfg uuids base sentence st =
     (let potentialChunk =
            currentChunk st @ (if currentChunk st \<noteq> [] then '' '' else []) @ sentence;
          st' =
            (if length potentialChunk > chunkSize cfg
                \<and> length (currentChunk st) > minChunkSize cfg
             then
               (let overlapText = getOverlapText cfg (currentChunk st) in
                st \<lparr> chunks := chunks st @
                       [createChunk (uuids (currentChunkIndex st)) (currentChunk st)
                          (currentChunkIndex st) base (currentLineStart st) (currentLineEnd st)],
                     currentChunk :=
                       overlapText @ (if overlapText \<noteq> [] then '' '' else []) @ sentence,
                     currentChunkIndex := currentChunkIndex st + 1,
                     currentLineStart := currentLineEnd st - estimateLines overlapText \<rparr>)
             else st \<lparr> currentChunk := potentialChunk \<rparr>)
      in st' \<lparr> currentLineEnd := currentLineEnd st' + estimateLines sentence \<rparr>)"

fun chunkLoop ::
  "ChunkingConfig \<Rightarrow> (nat \<Rightarrow> string) \<Rightarrow> BaseMetadata \<Rightarrow> string list \<Rightarrow> ChunkState \<Rightarrow> ChunkState" where
  "chunkLoop cfg uuids base [] st = st"
| "chunkLoop cfg uuids base (sentence # rest) st =
     chunkLoop cfg uuids base rest (chunkStep cfg uuids base sentence st)"

text \<open>The chunks after the final \<open>if\<close> of \<open>chunkText\<close>, before \<open>totalChunks\<close> is written.\<close>

definition finalChunks ::
  "ChunkingConfig \<Rightarrow> (nat \<Rightarrow> string) \<Rightarrow> BaseMetadata \<Rightarrow> ChunkState \<Rightarrow> DocumentChunk list" where
  "finalChunks cfg uuids base st =
     (if length (currentChunk st) \<ge> minChunkSize cfg
      then chunks st @
             [createChunk (uuids (currentChunkIndex st)) (currentChunk st)
                (currentChunkIndex st) base (currentLineStart st) (currentLineEnd st)]
      else chunks st)"

definition setTotalChunks :: "nat \<Rightarrow> DocumentChunk \<Rightarrow> DocumentChunk" where
  "setTotalChunks n c = c \<lparr> metadata := (metadata c) \<lparr> totalChunks := n \<rparr> \<rparr>"

definition chunkText ::
  "ChunkingConfig \<Rightarrow> (nat \<Rightarrow> string) \<Rightarrow> BaseMetadata \<Rightarrow> string \<Rightarrow> DocumentChunk list" where
  "chunkText cfg uuids base text =
     (let cs = finalChunks cfg uuids base
                 (chunkLoop cfg uuids base (splitIntoSentences text) initialState)
      in map (setTotalChunks (length cs)) cs)"

section \<open>VectorStore (vector-store.ts)\<close>

text \<open>
  A row of the table \<open>document_embeddings\<close>. The column \<open>embedding\<close> is the BLOB, a sequence
  of bytes, or \<open>None\<close> for NULL; the column \<open>metadata\<close> is the value \<open>JSON.parse\<close> gives for
  the stored text.
\<close>

record Row =
  row_id :: string
  row_document_id :: string
  row_chunk_index :: nat
  row_content :: string
  row_embedding :: "8 word list option"
  row_metadata :: ChunkMetadata

record VectorSearchResult =
  chunk :: DocumentChunk
  score :: number
  distance :: number

text \<open>
  What the JavaScript runtime provides: \<open>JSON.parse\<close> (\<open>None\<close> when it throws), the
  conversion of a number to a string in a template, \<open>toFixed(3)\<close>, and the order in which
  \<open>Array.prototype.sort\<close> leaves search results when a score is \<open>NaN\<close>: the comparator
  \<open>(a, b) => b.score - a.score\<close> is then not a consistent comparison and the language leaves
  the order to the implementation.
\<close>

record JsRuntime =
  JSON_parse :: "string \<Rightarrow> json option"
  numberToString :: "real \<Rightarrow> string"
  toFixed3 :: "number \<Rightarrow> string"
  sortInconsistent :: "VectorSearchResult list \<Rightarrow> VectorSearchResult list"

text \<open>
  The database: the rows of \<open>document_embeddings\<close> in the order a scan returns them, and
  the answer of the statement that \<open>vectorSearch\<close> prepares and runs on the virtual table
  \<open>vec_embeddings\<close>, each row with the \<open>distance\<close> the index reports; \<open>Inl\<close> when preparing or
  running the statement throws, as it does when the extension is not loaded.
\<close>

record Database =
  rows :: "Row list"
  vecStatement :: "number list \<Rightarrow> int \<Rightarrow> string list option \<Rightarrow> error + (Row \<times> number) list"

text \<open>
  The BLOB that \<open>addChunks\<close> writes for an embedding,
  \<open>Buffer.from(new Float32Array(chunk.embedding).buffer)\<close>: every component is rounded to
  single precision and stored as the four bytes of its bit pattern, lowest byte first.
\<close>

definition magnitudeBits :: "rat \<Rightarrow> int" where
  "magnitudeBits y =
     (case quotient_of y of
        (a, b) \<Rightarrow>
          if a = 0 then 0
          else
            (let ex = exponentOf a b
             in if - 126 \<le> ex
                then (ex + 127) * 8388608 + (nearestEven a b (ex - 23) - 8388608)
                else nearestEven a b (- 149)))"

definition float32Bits :: "number \<Rightarrow> int" where
  "float32Bits v =
     (case v of
        NaN \<Rightarrow> 2143289344
      | PosInf \<Rightarrow> 2139095040
      | NegInf \<Rightarrow> 4286578688
      | NegZero \<Rightarrow> 2147483648
      | Num x \<Rightarrow>
          (if x < 0 then 2147483648 else 0)
          + (case float32 \<bar>x\<bar> of Num y \<Rightarrow> magnitudeBits y | other \<Rightarrow> 2139095040))"

definition float32Bytes :: "number \<Rightarrow> 8 word list" where
  "float32Bytes v =
     (let bits = float32Bits v
      in map (\<lambda>i. word_of_int (bits div 256 ^ i)) [0, 1, 2, 3])"

definition embeddingBlob :: "number list \<Rightarrow> 8 word list" where
  "embeddingBlob e = concat (map float32Bytes e)"

text \<open>
  The vector that the code reads from a BLOB, \<open>Array.from(new Float32Array(row.embedding))\<close>.
  The BLOB arrives as a \<open>Buffer\<close>, which is a typed array of bytes, and the constructor of a
  typed array copies another typed array element by element: the result has one number
  for every byte, the value of that byte.
\<close>

definition decodeEmbedding :: "8 word list \<Rightarrow> number list" where
  "decodeEmbedding blob = map (\<lambda>byte. Num (of_nat (unat byte))) blob"

definition rowToChunk :: "Row \<Rightarrow> DocumentChunk" where
  "rowToChunk row =
     \<lparr> chunk_id = row_id row,
       documentId = row_document_id row,
       chunkIndex = row_chunk_index row,
       content = row_content row,
       metadata = row_metadata row,
       embedding = map_option decodeEmbedding (row_embedding row) \<rparr>"

definition vectorSearch ::
  "Database \<Rightarrow> number list \<Rightarrow> int \<Rightarrow> string list option \<Rightarrow> error + VectorSearchResult list" where
  "vectorSearch db queryEmbedding topK documentIds =
     (case vecStatement db queryEmbedding topK documentIds of
        Inl e \<Rightarrow> Inl e
      | Inr rs \<Rightarrow>
          Inr (map (\<lambda>(row, d). \<lparr> chunk = rowToChunk row, score = fsub (Num 1) d,
                                  distance = d \<rparr>) rs))"

text \<open>The \<open>for\<close> loop of \<open>cosineSimilarity\<close>, on the accumulators \<open>(dotProduct, normA, normB)\<close>.\<close>

fun cosineLoop ::
  "number list \<Rightarrow> number list \<Rightarrow> number \<times> number \<times> number \<Rightarrow> number \<times> number \<times> number" where
  "cosineLoop (x # xs) (y # ys) (dotProduct, normA, normB) =
     cosineLoop xs ys
       (fadd dotProduct (fmul x y), fadd normA (fmul x x), fadd normB (fmul y y))"
| "cosineLoop xs ys acc = acc"

definition cosineSimilarity :: "number list \<Rightarrow> number list \<Rightarrow> error + number" where
  "cosineSimilarity a b =
     (if length a \<noteq> length b then Inl (Error ''Vectors must have the same length'')
      else
        (case cosineLoop a b (Num 0, Num 0, Num 0) of
           (dotProduct, normA, normB) \<Rightarrow>
             if numEq normA (Num 0) \<or> numEq normB (Num 0) then Inr (Num 0)
             else Inr (fdiv dotProduct (fmul (fsqrt normA) (fsqrt normB)))))"

text \<open>
  The rows the SELECT of \<open>cosineSimilaritySearch\<close> returns: those with an embedding,
  restricted to the given documents when \<open>documentIds\<close> is present and not empty.
\<close>

definition selectRows :: "Database \<Rightarrow> string list option \<Rightarrow> Row list" where
  "selectRows db documentIds =
     filter (\<lambda>row. row_embedding row \<noteq> None \<and>
               (case documentIds of
                  None \<Rightarrow> True
                | Some ids \<Rightarrow> if ids = [] then True else row_document_id row \<in> set ids))
       (rows db)"

text \<open>The \<open>for\<close> loop of \<open>cosineSimilaritySearch\<close>; \<open>results\<close> is the array it pushes to.\<close>

fun scoreRows ::
  "number list \<Rightarrow> Row list \<Rightarrow> VectorSearchResult list \<Rightarrow> error + VectorSearchResult list" where
  "scoreRows queryEmbedding [] results = Inr results"
| "scoreRows queryEmbedding (row # rest) results =
     (case row_embedding row of
        None \<Rightarrow> scoreRows queryEmbedding rest results
      | Some blob \<Rightarrow>
          (case cosineSimilarity queryEmbedding (decodeEmbedding blob) of
             Inl err \<Rightarrow> Inl err
           | Inr similarity \<Rightarrow>
               scoreRows queryEmbedding rest
                 (results @ [\<lparr> chunk = rowToChunk row, score = similarity,
                               distance = fsub (Num 1) similarity \<rparr>])))"

text \<open>
  \<open>xs.sort((a, b) => key(b) - key(a))\<close> when no key is \<open>NaN\<close>: the sort of JavaScript is
  stable, so the result is in descending order of key and elements of equal key keep
  their order.
\<close>

fun insertDesc :: "('a \<Rightarrow> number) \<Rightarrow> 'a \<Rightarrow> 'a list \<Rightarrow> 'a list" where
  "insertDesc key x [] = [x]"
| "insertDesc key x (y # ys) =
     (if numLess (key y) (key x) then x # y # ys else y # insertDesc key x ys)"

definition sortDesc :: "('a \<Rightarrow> number) \<Rightarrow> 'a list \<Rightarrow> 'a list" where
  "sortDesc key xs = foldl (\<lambda>sorted x. insertDesc key x sorted) [] xs"

text \<open>\<open>results.sort((a, b) => b.score - a.score)\<close>.\<close>

definition sortByScore :: "JsRuntime \<Rightarrow> VectorSearchResult list \<Rightarrow> VectorSearchResult list" where
  "sortByScore rt results =
     (if list_ex (\<lambda>r. score r = NaN) results then sortInconsistent rt results
      else sortDesc score results)"

definition cosineSimilaritySearch ::
  "JsRuntime \<Rightarrow> Database \<Rightarrow> number list \<Rightarrow> int \<Rightarrow> string list option
     \<Rightarrow> error + VectorSearchResult list" where
  "cosineSimilaritySearch rt db queryEmbedding topK documentIds =
     (case scoreRows queryEmbedding (selectRows db documentIds) [] of
        Inl err \<Rightarrow> Inl err
      | Inr results \<Rightarrow> Inr (sliceTo topK (sortByScore rt results)))"

definition searchSimilar ::
  "JsRuntime \<Rightarrow> Database \<Rightarrow> number list \<Rightarrow> int \<Rightarrow> string list option
     \<Rightarrow> error + VectorSearchResult list" where
  "searchSimilar rt db queryEmbedding topK documentIds =
     (case vectorSearch db queryEmbedding topK documentIds of
        Inr results \<Rightarrow> Inr results
      | Inl e \<Rightarrow> cosineSimilaritySearch rt db queryEmbedding topK documentIds)"

section \<open>OllamaClient (ollama-client.ts)\<close>

record OllamaConfig =
  baseUrl :: string
  generalModel :: string
  coderModel :: "string option"
  embeddingModel :: string
  rerankerModel :: "string option"
  temperature :: real
  topP :: real
  maxRetries :: int

text \<open>The argument of \<open>client.generate\<close>.\<close>

record GenerateRequest =
  req_model :: string
  req_prompt :: string
  req_system :: "string option"
  req_temperature :: real
  req_top_p :: real
  req_format :: "string option"

text \<open>
  The model server behind the \<open>ollama\<close> client. The \<open>n\<close>-th call of \<open>client.generate\<close> with
  request \<open>r\<close> gives \<open>svc_generate n r\<close>: the text of \<open>response.response\<close>, or \<open>Inl\<close> when the
  call throws; likewise \<open>svc_embeddings n model prompt\<close> for \<open>client.embeddings\<close>. The calls
  made so far are recorded in the trace, which every function of the client takes and
  returns.
\<close>

record OllamaService =
  svc_generate :: "nat \<Rightarrow> GenerateRequest \<Rightarrow> error + string"
  svc_embeddings :: "nat \<Rightarrow> string \<Rightarrow> string \<Rightarrow> error + number list"

record Trace =
  generateCalls :: "GenerateRequest list"
  embeddingCalls :: "(string \<times> string) list"

definition client_generate ::
  "OllamaService \<Rightarrow> GenerateRequest \<Rightarrow> Trace \<Rightarrow> (error + string) \<times> Trace" where
  "client_generate svc req tr =
     (svc_generate svc (length (generateCalls tr)) req,
      tr \<lparr> generateCalls := generateCalls tr @ [req] \<rparr>)"

definition client_embeddings ::
  "OllamaService \<Rightarrow> string \<Rightarrow> string \<Rightarrow> Trace \<Rightarrow> (error + number list) \<times> Trace" where
  "client_embeddings svc m prompt tr =
     (svc_embeddings svc (length (embeddingCalls tr)) m prompt,
      tr \<lparr> embeddingCalls := embeddingCalls tr @ [(m, prompt)] \<rparr>)"

record EvidencePointer =
  ptr_sourcePathOrUrl :: string
  ptr_page :: "real option"
  ptr_lineStart :: "real option"
  ptr_lineEnd :: "real option"
  ptr_snippet :: "string option"

record Claim =
  claim_text :: string
  evidencePointers :: "EvidencePointer list"
  guidelineIds :: "string list"
  attributeIds :: "string list"
  confidence :: real

record EvidenceTracedResponse =
  claims :: "Claim list"
  summary :: string
  overallConfidence :: real
  evidenceGaps :: "string list option"

text \<open>
  The schemas of zod, as parsers: \<open>None\<close> is a validation failure (\<open>parse\<close> throws). A key
  that is absent is \<open>undefined\<close>; \<open>null\<close> is not accepted by \<open>optional()\<close>. Keys the schema
  does not name are dropped.
\<close>

definition zString :: "(string \<times> json) list \<Rightarrow> string \<Rightarrow> string option" where
  "zString obj k = (case map_of obj k of Some (JStr v) \<Rightarrow> Some v | _ \<Rightarrow> None)"

definition zNumber :: "(string \<times> json) list \<Rightarrow> string \<Rightarrow> real option" where
  "zNumber obj k = (case map_of obj k of Some (JNum v) \<Rightarrow> Some v | _ \<Rightarrow> None)"

definition zNumber01 :: "(string \<times> json) list \<Rightarrow> string \<Rightarrow> real option" where
  "zNumber01 obj k =
     (case zNumber obj k of
        Some v \<Rightarrow> if 0 \<le> v \<and> v \<le> 1 then Some v else None
      | None \<Rightarrow> None)"

definition zOptionalString :: "(string \<times> json) list \<Rightarrow> string \<Rightarrow> string option option" where
  "zOptionalString obj k =
     (case map_of obj k of None \<Rightarrow> Some None | Some (JStr v) \<Rightarrow> Some (Some v) | _ \<Rightarrow> None)"

definition zOptionalNumber :: "(string \<times> json) list \<Rightarrow> string \<Rightarrow> real option option" where
  "zOptionalNumber obj k =
     (case map_of obj k of None \<Rightarrow> Some None | Some (JNum v) \<Rightarrow> Some (Some v) | _ \<Rightarrow> None)"

definition zArray :: "(json \<Rightarrow> 'a option) \<Rightarrow> json \<Rightarrow> 'a list option" where
  "zArray item j = (case j of JArr xs \<Rightarrow> those (map item xs) | _ \<Rightarrow> None)"

definition zStringItem :: "json \<Rightarrow> string option" where
  "zStringItem j = (case j of JStr v \<Rightarrow> Some v | _ \<Rightarrow> None)"

definition zArrayField ::
  "(json \<Rightarrow> 'a option) \<Rightarrow> (string \<times> json) list \<Rightarrow> string \<Rightarrow> 'a list option" where
  "zArrayField item obj k = (case map_of obj k of Some j \<Rightarrow> zArray item j | None \<Rightarrow> None)"

definition EvidencePointerSchema :: "json \<Rightarrow> EvidencePointer option" where
  "EvidencePointerSchema j =
     (case j of
        JObj obj \<Rightarrow>
          (case (zString obj ''sourcePathOrUrl'', zOptionalNumber obj ''page'',
                 zOptionalNumber obj ''lineStart'', zOptionalNumber obj ''lineEnd'',
                 zOptionalString obj ''snippet'') of
             (Some src, Some pg, Some ls, Some le, Some sn) \<Rightarrow>
               Some \<lparr> ptr_sourcePathOrUrl = src, ptr_page = pg, ptr_lineStart = ls,
                      ptr_lineEnd = le, ptr_snippet = sn \<rparr>
           | _ \<Rightarrow> None)
      | _ \<Rightarrow> None)"

definition ClaimSchema :: "json \<Rightarrow> Claim option" where
  "ClaimSchema j =
     (case j of
        JObj obj \<Rightarrow>
          (case (zString obj ''text'',
                 zArrayField EvidencePointerSchema obj ''evidencePointers'',
                 zArrayField zStringItem obj ''guidelineIds'',
                 zArrayField zStringItem obj ''attributeIds'',
                 zNumber01 obj ''confidence'') of
             (Some t, Some eps, Some gs, Some as, Some c) \<Rightarrow>
               Some \<lparr> claim_text = t, evidencePointers = eps, guidelineIds = gs,
                      attributeIds = as, confidence = c \<rparr>
           | _ \<Rightarrow> None)
      | _ \<Rightarrow> None)"

definition EvidenceTracedResponseSchema :: "json \<Rightarrow> EvidenceTracedResponse option" where
  "EvidenceTracedResponseSchema j =
     (case j of
        JObj obj \<Rightarrow>
          (case (zArrayField ClaimSchema obj ''claims'',
                 zString obj ''summary'',
                 zNumber01 obj ''overallConfidence'',
                 (case map_of obj ''evidenceGaps'' of
                    None \<Rightarrow> Some None
                  | Some g \<Rightarrow> map_option Some (zArray zStringItem g))) of
             (Some cs, Some sm, Some oc, Some gaps) \<Rightarrow>
               Some \<lparr> claims = cs, summary = sm, overallConfidence = oc,
                      evidenceGaps = gaps \<rparr>
           | _ \<Rightarrow> None)
      | _ \<Rightarrow> None)"

text \<open>The two prompts of \<open>generateEvidenceTracedResponse\<close>, line by line.\<close>

definition systemPrompt :: string where
  \<open>systemPrompt = joinWith [CHR 0x0A]
    [''You are an evidence-tracing IP2M assessment assistant. You must only produce claims that are directly supported by the provided context. If no solid evidence exists for a claim, do not make the claim.'',
     '''',
     ''CRITICAL REQUIREMENTS:'',
     ''1. Every claim MUST include at least one evidence pointer with specific source information'',
     ''2. Map claims to relevant EIA-748 guideline IDs and IP2M attributes when determinable'',
     ''3. Provide confidence scores based on evidence quality and completeness'',
     ''4. If insufficient evidence exists, respond with an empty claims array'',
     '''',
     ''Output MUST be valid JSON matching this exact schema:'',
     ''{'',
     ''  "claims": ['',
     ''    {'',
     ''      "text": "specific claim text",'',
     ''      "evidencePointers": ['',
     ''        {'',
     ''          "sourcePathOrUrl": "exact file path or URL",'',
     ''          "page": 15,'',
     ''          "lineStart": 10,'',
     ''          "lineEnd": 25,'',
     ''          "snippet": "relevant quote from source"'',
     ''        }'',
     ''      ],'',
     ''      "guidelineIds": ["EIA748-1", "EIA748-2"],'',
     ''      "attributeIds": ["IP2M-A1", "IP2M-A2"],'',
     ''      "confidence": 0.85'',
     ''    }'',
     ''  ],'',
     ''  "summary": "overall summary of findings",'',
     ''  "overallConfidence": 0.8,'',
     ''  "evidenceGaps": ["areas where more evidence is needed"]'',
     ''}'']\<close>

definition userPrompt :: "string \<Rightarrow> string \<Rightarrow> string" where
  "userPrompt question context = joinWith [CHR 0x0A]
     [''Question: '' @ question,
      '''',
      ''Context:'',
      context,
      '''',
      ''Analyze the context and provide evidence-traced claims. Remember: NO CLAIMS WITHOUT EVIDENCE POINTERS.'']"

text \<open>\<open>this.config.coderModel || this.config.generalModel\<close>: the empty string is falsy.\<close>

definition generationModel :: "OllamaConfig \<Rightarrow> string" where
  "generationModel cfg =
     (case coderModel cfg of
        Some m \<Rightarrow> if m = [] then generalModel cfg else m
      | None \<Rightarrow> generalModel cfg)"

definition degradedResponse :: EvidenceTracedResponse where
  "degradedResponse =
     \<lparr> claims = [],
       summary = ''Insufficient evidence to make reliable claims'',
       overallConfidence = 0,
       evidenceGaps = Some [''Unable to process context or generate valid response''] \<rparr>"

text \<open>
  The body of the \<open>try\<close> block of one attempt, after the call: \<open>JSON.parse\<close> of the reply
  (the function \<open>jsonParse\<close>, \<open>None\<close> when it throws) and the schema's \<open>parse\<close>. \<open>None\<close> is
  any throw, which the \<open>catch\<close> receives.
\<close>

definition parseReply ::
  "(string \<Rightarrow> json option) \<Rightarrow> error + string \<Rightarrow> EvidenceTracedResponse option" where
  "parseReply jsonParse reply =
     (case reply of
        Inl e \<Rightarrow> None
      | Inr txt \<Rightarrow>
          (case jsonParse txt of
             None \<Rightarrow> None
           | Some parsed \<Rightarrow> EvidenceTracedResponseSchema parsed))"

text \<open>
  The \<open>for\<close> loop of \<open>generateEvidenceTracedResponse\<close> from the attempt \<open>attempt\<close> on, and
  the \<open>throw\<close> after it. The retry budget is an integer.
\<close>

function attemptLoop ::
  "OllamaService \<Rightarrow> (string \<Rightarrow> json option) \<Rightarrow> GenerateRequest \<Rightarrow> int \<Rightarrow> int \<Rightarrow> Trace
     \<Rightarrow> (error + EvidenceTracedResponse) \<times> Trace" where
  "attemptLoop svc jsonParse req retries attempt tr =
     (if attempt < retries then
        (case client_generate svc req tr of
           (reply, tr') \<Rightarrow>
             (case parseReply jsonParse reply of
                Some validated \<Rightarrow> (Inr validated, tr')
              | None \<Rightarrow>
                  if attempt = retries - 1 then (Inr degradedResponse, tr')
                  else attemptLoop svc jsonParse req retries (attempt + 1) tr'))
      else (Inl (Error ''All retry attempts failed''), tr))"
  by pat_completeness auto
termination
  by (relation "measure (\<lambda>(svc, jsonParse, req, retries, attempt, tr). nat (retries - attempt))")
     auto

declare attemptLoop.simps [simp del]

text \<open>The request every attempt sends.\<close>

definition tracedRequest :: "OllamaConfig \<Rightarrow> string \<Rightarrow> string \<Rightarrow> GenerateRequest" where
  "tracedRequest cfg question context =
     \<lparr> req_model = generationModel cfg,
       req_prompt = userPrompt question context,
       req_system = Some systemPrompt,
       req_temperature = temperature cfg,
       req_top_p = topP cfg,
       req_format = Some ''json'' \<rparr>"

definition generateEvidenceTracedResponse ::
  "OllamaService \<Rightarrow> (string \<Rightarrow> json option) \<Rightarrow> OllamaConfig \<Rightarrow> string \<Rightarrow> string \<Rightarrow> int \<Rightarrow> Trace
     \<Rightarrow> (error + EvidenceTracedResponse) \<times> Trace" where
  "generateEvidenceTracedResponse svc jsonParse cfg question context retries tr =
     attemptLoop svc jsonParse (tracedRequest cfg question context) retries 0 tr"

record EmbeddingResult =
  emb_embedding :: "number list"
  emb_model :: string
  emb_prompt :: string

definition generateEmbedding ::
  "OllamaService \<Rightarrow> OllamaConfig \<Rightarrow> string \<Rightarrow> Trace \<Rightarrow> (error + EmbeddingResult) \<times> Trace" where
  "generateEmbedding svc cfg t tr =
     (case client_embeddings svc (embeddingModel cfg) t tr of
        (Inl e, tr') \<Rightarrow>
          (Inl (Error (''Failed to generate embedding: '' @ errorToString e)), tr')
      | (Inr v, tr') \<Rightarrow>
          (Inr \<lparr> emb_embedding = v, emb_model = embeddingModel cfg, emb_prompt = t \<rparr>, tr'))"

text \<open>The documents \<open>rerank\<close> takes, with an optional score, and those it returns.\<close>

record RerankDoc =
  doc_id :: string
  doc_content :: string
  doc_score :: "number option"

record ScoredDoc =
  sd_id :: string
  sd_content :: string
  sd_score :: number

text \<open>\<open>doc.score || 0\<close>: a score that is absent, a zero or \<open>NaN\<close> is falsy.\<close>

definition scoreOrZero :: "RerankDoc \<Rightarrow> number" where
  "scoreOrZero doc =
     (case doc_score doc of
        None \<Rightarrow> Num 0
      | Some v \<Rightarrow> if v = NaN \<or> isZero v then Num 0 else v)"

text \<open>The pass-through of \<open>rerank\<close>: sort by the existing score, truncate, fill the score in.\<close>

definition passThrough :: "RerankDoc list \<Rightarrow> int \<Rightarrow> ScoredDoc list" where
  "passThrough documents topK =
     map (\<lambda>doc. \<lparr> sd_id = doc_id doc, sd_content = doc_content doc,
                   sd_score = scoreOrZero doc \<rparr>)
       (sliceTo topK (sortDesc scoreOrZero documents))"

text \<open>
  \<open>response.match(/(\d+\.?\d*)/)\<close> and \<open>parseFloat\<close> of the match: the first run of digits,
  with a point and further digits when they follow, as the double nearest to that decimal;
  \<open>None\<close> when the reply has no digit.
\<close>

definition isDigit :: "char \<Rightarrow> bool" where
  "isDigit c \<longleftrightarrow> c \<in> set ''0123456789''"

definition digitsValue :: "string \<Rightarrow> int" where
  "digitsValue ds = foldl (\<lambda>acc c. 10 * acc + (of_char c - 48)) 0 ds"

definition matchScore :: "string \<Rightarrow> number option" where
  "matchScore reply =
     (let fromDigit = dropWhile (\<lambda>c. \<not> isDigit c) reply in
      if fromDigit = [] then None
      else
        (let whole = takeWhile isDigit fromDigit;
             after = dropWhile isDigit fromDigit;
             fraction = (case after of
                           [] \<Rightarrow> []
                         | c # cs \<Rightarrow> if c = CHR ''.'' then takeWhile isDigit cs else [])
         in Some (double (of_int (digitsValue whole)
                          + of_int (digitsValue fraction) / 10 ^ length fraction))))"

text \<open>\<open>scoreMatch ? Math.min(1.0, Math.max(0.0, parseFloat(scoreMatch[1]))) : 0.5\<close>.\<close>

definition rerankScore :: "string \<Rightarrow> number" where
  "rerankScore reply =
     (case matchScore reply of
        Some v \<Rightarrow> numMin (Num 1) (numMax (Num 0) v)
      | None \<Rightarrow> Num (1 / 2))"

text \<open>The \<open>for\<close> loop of \<open>rerank\<close>; \<open>Inl\<close> when a call throws.\<close>

fun rerankLoop ::
  "OllamaService \<Rightarrow> string \<Rightarrow> string \<Rightarrow> RerankDoc list \<Rightarrow> ScoredDoc list \<Rightarrow> Trace
     \<Rightarrow> (error + ScoredDoc list) \<times> Trace" where
  "rerankLoop svc m query [] rerankedDocs tr = (Inr rerankedDocs, tr)"
| "rerankLoop svc m query (doc # rest) rerankedDocs tr =
     (case client_generate svc
             \<lparr> req_model = m,
               req_prompt = ''Query: '' @ query @ [CHR 0x0A] @ ''Document: '' @ doc_content doc
                              @ [CHR 0x0A, CHR 0x0A] @ ''Relevance score (0.0 to 1.0):'',
               req_system = None,
               req_temperature = 1 / 10,
               req_top_p = 9 / 10,
               req_format = None \<rparr> tr of
        (Inl e, tr') \<Rightarrow> (Inl e, tr')
      | (Inr reply, tr') \<Rightarrow>
          rerankLoop svc m query rest
            (rerankedDocs @ [\<lparr> sd_id = doc_id doc, sd_content = doc_content doc,
                                sd_score = rerankScore reply \<rparr>]) tr')"

definition rerank ::
  "OllamaService \<Rightarrow> OllamaConfig \<Rightarrow> string \<Rightarrow> RerankDoc list \<Rightarrow> int \<Rightarrow> Trace
     \<Rightarrow> ScoredDoc list \<times> Trace" where
  "rerank svc cfg query documents topK tr =
     (case rerankerModel cfg of
        None \<Rightarrow> (passThrough documents topK, tr)
      | Some m \<Rightarrow>
          if m = [] then (passThrough documents topK, tr)
          else
            (case rerankLoop svc m query documents [] tr of
               (Inl e, tr') \<Rightarrow> (passThrough documents topK, tr')
             | (Inr rerankedDocs, tr') \<Rightarrow>
                 (sliceTo topK (sortDesc sd_score rerankedDocs), tr')))"

section \<open>RAGPipeline (rag-pipeline.ts)\<close>

record RetrievalConfig =
  topK :: int
  rerankTopK :: int
  confidenceThreshold :: number
  enableReranking :: bool

record RAGConfig =
  ollama :: OllamaConfig
  chunking :: ChunkingConfig
  retrieval :: RetrievalConfig

record QueryOptions =
  opt_topK :: "int option"
  opt_rerankTopK :: "int option"
  opt_enableReranking :: "bool option"

text \<open>
  The result of \<open>query\<close>. The wall-clock readings of \<open>processingTime\<close> are not modelled.
\<close>

record RAGQueryResult =
  response :: EvidenceTracedResponse
  retrievedChunks :: "VectorSearchResult list"
  rerankedChunks :: "VectorSearchResult list option"

text \<open>A number or a string that may be absent, as a condition: 0 and the empty string are falsy.\<close>

definition truthyNumber :: "real option \<Rightarrow> bool" where
  "truthyNumber v = (case v of None \<Rightarrow> False | Some x \<Rightarrow> x \<noteq> 0)"

definition truthyString :: "string option \<Rightarrow> bool" where
  "truthyString v = (case v of None \<Rightarrow> False | Some x \<Rightarrow> x \<noteq> [])"

text \<open>\<open>options?.topK || dflt\<close>.\<close>

definition orDefault :: "int option \<Rightarrow> int \<Rightarrow> int" where
  "orDefault v dflt = (case v of None \<Rightarrow> dflt | Some k \<Rightarrow> if k = 0 then dflt else k)"

definition emptyEvidenceResponse :: EvidenceTracedResponse where
  "emptyEvidenceResponse =
     \<lparr> claims = [],
       summary = ''No relevant evidence found for the query'',
       overallConfidence = 0,
       evidenceGaps = Some [''Insufficient relevant documents in knowledge base''] \<rparr>"

definition contextEntry :: "JsRuntime \<Rightarrow> nat \<Rightarrow> VectorSearchResult \<Rightarrow> string" where
  "contextEntry rt index result =
     (let md = metadata (chunk result) in
      ''[Source '' @ numberToString rt (real (index + 1)) @ ''] '' @ sourcePathOrUrl md
      @ (if truthyNumber (page md)
         then '' (Page '' @ numberToString rt (the (page md)) @ '')'' else [])
      @ (if truthyNumber (lineStart md)
         then '' (Lines '' @ numberToString rt (the (lineStart md)) @ ''-''
              @ (case lineEnd md of Some le \<Rightarrow> numberToString rt le | None \<Rightarrow> ''undefined'')
              @ '')''
         else [])
      @ [CHR 0x0A] @ ''Score: '' @ toFixed3 rt (score result)
      @ [CHR 0x0A] @ ''Content: '' @ content (chunk result)
      @ [CHR 0x0A] @ ''---'')"

definition buildContext :: "JsRuntime \<Rightarrow> VectorSearchResult list \<Rightarrow> string" where
  "buildContext rt cs =
     joinWith [CHR 0x0A, CHR 0x0A] (map (\<lambda>(index, result). contextEntry rt index result)
                                      (enumerate 0 cs))"

text \<open>
  The body of the inner loop of \<open>enhanceEvidencePointers\<close>, on one evidence pointer. The
  code updates the pointer in place; the model returns the updated pointer.
\<close>

definition enhancePointer :: "VectorSearchResult list \<Rightarrow> EvidencePointer \<Rightarrow> EvidencePointer" where
  "enhancePointer contextChunks evidencePointer =
     (case find (\<lambda>result. sourcePathOrUrl (metadata (chunk result))
                            = ptr_sourcePathOrUrl evidencePointer) contextChunks of
        None \<Rightarrow> evidencePointer
      | Some matchingChunk \<Rightarrow>
          (let md = metadata (chunk matchingChunk);
               p1 = (if \<not> truthyNumber (ptr_page evidencePointer) \<and> truthyNumber (page md)
                     then evidencePointer \<lparr> ptr_page := page md \<rparr>
                     else evidencePointer);
               p2 = (if \<not> truthyNumber (ptr_lineStart p1) \<and> truthyNumber (lineStart md)
                     then p1 \<lparr> ptr_lineStart := lineStart md, ptr_lineEnd := lineEnd md \<rparr>
                     else p1);
               p3 = (if \<not> truthyString (ptr_snippet p2) \<and> content (chunk matchingChunk) \<noteq> []
                     then p2 \<lparr> ptr_snippet :=
                                 Some (take 200 (content (chunk matchingChunk)) @ ''...'') \<rparr>
                     else p2)
           in p3))"

fun enhancePointers :: "VectorSearchResult list \<Rightarrow> EvidencePointer list \<Rightarrow> EvidencePointer list" where
  "enhancePointers contextChunks [] = []"
| "enhancePointers contextChunks (p # ps) =
     enhancePointer contextChunks p # enhancePointers contextChunks ps"

fun enhanceClaims :: "VectorSearchResult list \<Rightarrow> Claim list \<Rightarrow> Claim list" where
  "enhanceClaims contextChunks [] = []"
| "enhanceClaims contextChunks (c # cs) =
     c \<lparr> evidencePointers := enhancePointers contextChunks (evidencePointers c) \<rparr>
       # enhanceClaims contextChunks cs"

definition enhanceEvidencePointers ::
  "EvidenceTracedResponse \<Rightarrow> VectorSearchResult list \<Rightarrow> EvidenceTracedResponse" where
  "enhanceEvidencePointers resp contextChunks =
     resp \<lparr> claims := enhanceClaims contextChunks (claims resp) \<rparr>"

text \<open>
  The reranking step of \<open>query\<close>: the documents sent to \<open>rerank\<close> and the results rebuilt
  from its answer. A document whose id is not among the filtered chunks gives \<open>None\<close>,
  where the code goes on with \<open>undefined\<close> and throws in \<open>buildContext\<close>.
\<close>

definition rerankChunks ::
  "OllamaService \<Rightarrow> OllamaConfig \<Rightarrow> string \<Rightarrow> VectorSearchResult list \<Rightarrow> int \<Rightarrow> Trace
     \<Rightarrow> VectorSearchResult list option \<times> Trace" where
  "rerankChunks svc cfg question filteredChunks k tr =
     (case rerank svc cfg question
             (map (\<lambda>result. \<lparr> doc_id = chunk_id (chunk result),
                               doc_content = content (chunk result),
                               doc_score = Some (score result) \<rparr>) filteredChunks) k tr of
        (rerankedDocs, tr') \<Rightarrow>
          (those (map (\<lambda>doc.
                    map_option (\<lambda>originalChunk. originalChunk \<lparr> score := sd_score doc \<rparr>)
                      (find (\<lambda>c. chunk_id (chunk c) = sd_id doc) filteredChunks))
                  rerankedDocs), tr'))"

text \<open>
  The steps of \<open>query\<close> after the threshold filter left at least one chunk: reranking when
  enabled, the context, the generation with its default budget of 3 attempts, and the
  enhancement of the evidence pointers.
\<close>

definition answerFrom ::
  "JsRuntime \<Rightarrow> OllamaService \<Rightarrow> RAGConfig \<Rightarrow> string \<Rightarrow> QueryOptions option
     \<Rightarrow> VectorSearchResult list \<Rightarrow> Trace \<Rightarrow> (error + RAGQueryResult) \<times> Trace" where
  "answerFrom rt svc cfg question options filteredChunks tr =
     (let enable = (case Option.bind options opt_enableReranking of
                      Some b \<Rightarrow> b
                    | None \<Rightarrow> enableReranking (retrieval cfg));
          (reranked, tr2) =
            (if enable
             then (case rerankChunks svc (ollama cfg) question filteredChunks
                          (orDefault (Option.bind options opt_rerankTopK)
                             (rerankTopK (retrieval cfg))) tr of
                     (Some cs, tr') \<Rightarrow> (Inr (Some cs), tr')
                   | (None, tr') \<Rightarrow>
                       (Inl (Error ''Cannot read properties of undefined''), tr'))
             else (Inr None, tr))
      in case reranked of
           Inl e \<Rightarrow> (Inl e, tr2)
         | Inr rerankedOpt \<Rightarrow>
             (let contextChunks = (case rerankedOpt of Some cs \<Rightarrow> cs | None \<Rightarrow> filteredChunks)
              in case generateEvidenceTracedResponse svc (JSON_parse rt) (ollama cfg) question
                        (buildContext rt contextChunks) 3 tr2 of
                   (Inl e, tr3) \<Rightarrow> (Inl e, tr3)
                 | (Inr resp, tr3) \<Rightarrow>
                     (Inr \<lparr> response = enhanceEvidencePointers resp contextChunks,
                            retrievedChunks = filteredChunks,
                            rerankedChunks = rerankedOpt \<rparr>, tr3)))"

text \<open>The \<open>try\<close> block of \<open>query\<close>.\<close>

definition queryBody ::
  "JsRuntime \<Rightarrow> OllamaService \<Rightarrow> RAGConfig \<Rightarrow> Database \<Rightarrow> string \<Rightarrow> string list option
     \<Rightarrow> QueryOptions option \<Rightarrow> Trace \<Rightarrow> (error + RAGQueryResult) \<times> Trace" where
  "queryBody rt svc cfg db question scope options tr =
     (case generateEmbedding svc (ollama cfg) question tr of
        (Inl e, tr1) \<Rightarrow> (Inl e, tr1)
      | (Inr queryEmbedding, tr1) \<Rightarrow>
          (case searchSimilar rt db (emb_embedding queryEmbedding)
                  (orDefault (Option.bind options opt_topK) (topK (retrieval cfg))) scope of
             Inl e \<Rightarrow> (Inl e, tr1)
           | Inr retrieved \<Rightarrow>
               (let filteredChunks =
                      filter (\<lambda>result. numGe (score result) (confidenceThreshold (retrieval cfg)))
                        retrieved
                in if length filteredChunks = 0
                   then (Inr \<lparr> response = emptyEvidenceResponse,
                               retrievedChunks = [],
                               rerankedChunks = None \<rparr>, tr1)
                   else answerFrom rt svc cfg question options filteredChunks tr1)))"

definition query ::
  "JsRuntime \<Rightarrow> OllamaService \<Rightarrow> RAGConfig \<Rightarrow> Database \<Rightarrow> string \<Rightarrow> string list option
     \<Rightarrow> QueryOptions option \<Rightarrow> Trace \<Rightarrow> (error + RAGQueryResult) \<times> Trace" where
  "query rt svc cfg db question scope options tr =
     (case queryBody rt svc cfg db question scope options tr of
        (Inl e, tr') \<Rightarrow> (Inl (Error (''Failed to process query: '' @ errorToString e)), tr')
      | (Inr result, tr') \<Rightarrow> (Inr result, tr'))"

section \<open>Notions used to state the properties\<close>


text \<open>
  The overlap seed a chunk starts with: nothing for the first chunk, and after the chunk
  \<open>p\<close> the overlap text of \<open>p\<close> followed by a space when that text is not empty.
\<close>

definition seed :: "ChunkingConfig \<Rightarrow> string option \<Rightarrow> string" where
  "seed cfg prev =
     (case prev of
        None \<Rightarrow> []
      | Some p \<Rightarrow> (let overlapText = getOverlapText cfg p
                  in overlapText @ (if overlapText \<noteq> [] then '' '' else [])))"

text \<open>The chunk contents with the overlap seed of each chunk removed.\<close>

fun deoverlap :: "ChunkingConfig \<Rightarrow> string option \<Rightarrow> string list \<Rightarrow> string list" where
  "deoverlap cfg prev [] = []"
| "deoverlap cfg prev (c # cs) = drop (length (seed cfg prev)) c # deoverlap cfg (Some c) cs"






section \<open>Example inputs\<close>

definition smallConfig :: ChunkingConfig where
  "smallConfig =
     \<lparr> chunkSize = 10, chunkOverlap = 5, preserveStructure = True, minChunkSize = 5 \<rparr>"

text \<open>
  A configuration at which the rounding of the division shows: for a chunk of 22 words,
  \<open>22 * (15 / 22)\<close> is a little under 15 in doubles, and 14 words overlap.
\<close>

definition roundingConfig :: ChunkingConfig where
  "roundingConfig =
     \<lparr> chunkSize = 22, chunkOverlap = 15, preserveStructure = True, minChunkSize = 5 \<rparr>"


definition exampleBase :: BaseMetadata where
  "exampleBase =
     \<lparr> base_documentId = ''d1'', base_sourceKind = Text, base_sourcePathOrUrl = ''doc.txt'',
       base_fileHash = ''h'', base_pageCount = None \<rparr>"

definition exampleUuids :: "nat \<Rightarrow> string" where
  "exampleUuids k = replicate (Suc k) CHR ''u''"

definition exampleMetadata :: ChunkMetadata where
  "exampleMetadata =
     \<lparr> sourceKind = Text, sourcePathOrUrl = ''doc.txt'', page = Some 4,
       lineStart = Some 3, lineEnd = Some 7, section_md = None, table_md = None,
       fileHash = ''h'', chunkSize_md = 5, totalChunks = 1 \<rparr>"

text \<open>
  The row of a chunk of \<open>doc.txt\<close> that was stored with the embedding \<open>e\<close>: its BLOB is the
  one \<open>addChunks\<close> writes for \<open>e\<close>.
\<close>

definition exampleRow :: "number list \<Rightarrow> Row" where
  "exampleRow e =
     \<lparr> row_id = ''c1'', row_document_id = ''d1'', row_chunk_index = 0,
       row_content = ''alpha'', row_embedding = Some (embeddingBlob e),
       row_metadata = exampleMetadata \<rparr>"

text \<open>A store without the vector extension, holding one chunk stored with embedding \<open>e\<close>.\<close>

definition fallbackDb :: "number list \<Rightarrow> Database" where
  "fallbackDb e =
     \<lparr> rows = [exampleRow e],
       vecStatement = (\<lambda>q k ids. Inl (Error ''no such table: vec_embeddings'')) \<rparr>"

text \<open>
  A store holding one chunk stored with embedding \<open>e\<close>, whose index reports that chunk at
  distance \<open>d\<close>.
\<close>

definition indexedDb :: "number list \<Rightarrow> number \<Rightarrow> Database" where
  "indexedDb e d =
     \<lparr> rows = [exampleRow e],
       vecStatement = (\<lambda>q k ids. Inr [(exampleRow e, d)]) \<rparr>"

definition exampleConfig :: RAGConfig where
  "exampleConfig =
     \<lparr> ollama = \<lparr> baseUrl = ''http://localhost:11434'', generalModel = ''llama3.1:8b'',
                  coderModel = None, embeddingModel = ''bge-small-en'', rerankerModel = None,
                  temperature = 2 / 10, topP = 8 / 10, maxRetries = 3 \<rparr>,
       chunking = \<lparr> chunkSize = 1000, chunkOverlap = 200, preserveStructure = True,
                    minChunkSize = 100 \<rparr>,
       retrieval = \<lparr> topK = 5, rerankTopK = 3, confidenceThreshold = Num (1 / 2),
                     enableReranking = False \<rparr> \<rparr>"

definition emptyTrace :: Trace where
  "emptyTrace = \<lparr> generateCalls = [], embeddingCalls = [] \<rparr>"

text \<open>A model server that answers every generation with \<open>reply\<close> and embeds to \<open>[1, 0]\<close>.\<close>

definition exampleService :: "string \<Rightarrow> OllamaService" where
  "exampleService reply =
     \<lparr> svc_generate = (\<lambda>n req. Inr reply),
       svc_embeddings = (\<lambda>n m p. Inr [Num 1, Num 0]) \<rparr>"

text \<open>A runtime whose \<open>JSON.parse\<close> reads the text \<open>reply\<close> as the value \<open>j\<close>.\<close>

definition exampleRuntime :: "json \<Rightarrow> JsRuntime" where
  "exampleRuntime j =
     \<lparr> JSON_parse = (\<lambda>s. if s = ''reply'' then Some j else None),
       numberToString = (\<lambda>x. ''n''), toFixed3 = (\<lambda>x. ''0.000''),
       sortInconsistent = (\<lambda>results. results) \<rparr>"

text \<open>A reply of the model whose only claim has an empty \<open>evidencePointers\<close> array.\<close>

definition pointerlessReply :: json where
  "pointerlessReply =
     JObj [(''claims'',
            JArr [JObj [(''text'', JStr ''The WBS is complete''),
                        (''evidencePointers'', JArr []),
                        (''guidelineIds'', JArr []),
                        (''attributeIds'', JArr []),
                        (''confidence'', JNum (9 / 10))]]),
           (''summary'', JStr ''ok''),
           (''overallConfidence'', JNum (9 / 10))]"

definition pointerlessResponse :: EvidenceTracedResponse where
  "pointerlessResponse =
     \<lparr> claims = [\<lparr> claim_text = ''The WBS is complete'', evidencePointers = [],
                    guidelineIds = [], attributeIds = [], confidence = 9 / 10 \<rparr>],
       summary = ''ok'', overallConfidence = 9 / 10, evidenceGaps = None \<rparr>"

text \<open>
  A response citing \<open>doc.txt\<close> with the given fields, and the context chunk of that file:
  page 4, lines 3 to 7, content \<open>alpha\<close>.
\<close>

definition citing ::
  "real option \<Rightarrow> real option \<Rightarrow> real option \<Rightarrow> string option \<Rightarrow> EvidenceTracedResponse" where
  "citing pg ls le sn =
     \<lparr> claims = [\<lparr> claim_text = ''t'',
                    evidencePointers =
                      [\<lparr> ptr_sourcePathOrUrl = ''doc.txt'', ptr_page = pg, ptr_lineStart = ls,
                         ptr_lineEnd = le, ptr_snippet = sn \<rparr>],
                    guidelineIds = [], attributeIds = [], confidence = 1 \<rparr>],
       summary = ''s'', overallConfidence = 1, evidenceGaps = None \<rparr>"

definition exampleContext :: "VectorSearchResult list" where
  "exampleContext =
     [\<lparr> chunk = rowToChunk (exampleRow [Num 0, Num 1]), score = Num 1, distance = Num 0 \<rparr>]"

section \<open>Properties of DocumentProcessor\<close>

subsection \<open>The chunk contents along the loop\<close>







lemma example_contents:
  "map content (chunkText smallConfig exampleUuids exampleBase ''ab. cdefghijk. lmnopq.'') =
     [''ab cdefghijk'', ''cdefghijk lmnopq'']"
  by code_simp

lemma rounding_overlapWords: "overlapWords roundingConfig 22 = Num 14"
  by code_simp




lemma rounding_deoverlap:
  "deoverlap roundingConfig None
     [''a b c d e f g h i j k l m n o p q r s t u v'', ''i j k l m n o p q r s t u v next one'']
   = [''a b c d e f g h i j k l m n o p q r s t u v'', ''next one'']"
  by code_simp


subsection \<open>The \<open>totalChunks\<close> count\<close>

text \<open>
  C8. All chunks returned by \<open>chunkText\<close> for one document carry the same
  \<open>metadata.totalChunks\<close>, and that value is the number of chunks produced.
\<close>

theorem chunkText_totalChunks:
  "list_all (\<lambda>c. totalChunks (metadata c) = length (chunkText cfg uuids base text))
     (chunkText cfg uuids base text)"
  by (simp add: chunkText_def Let_def list_all_iff setTotalChunks_def)

text \<open>On the example text there are two chunks, and both say so.\<close>

theorem chunkText_totalChunks_witness:
  "map (\<lambda>c. totalChunks (metadata c))
     (chunkText smallConfig exampleUuids exampleBase ''ab. cdefghijk. lmnopq.'') = [2, 2]"
proof -
  let ?cs = "chunkText smallConfig exampleUuids exampleBase ''ab. cdefghijk. lmnopq.''"
  have "length (map content ?cs) = 2" by (simp only: example_contents) simp
  then have len: "length ?cs = 2" by simp
  then obtain a b where ab: "?cs = [a, b]"
    by (cases ?cs; cases "tl ?cs") auto
  from chunkText_totalChunks [of smallConfig exampleUuids exampleBase "''ab. cdefghijk. lmnopq.''"]
  show ?thesis unfolding len unfolding ab by simp
qed

subsection \<open>Chunk sizes\<close>











subsection \<open>Reconstruction of the text\<close>











section \<open>Properties of VectorStore\<close>

subsection \<open>What is stored and what is read back\<close>

lemma length_float32Bytes: "length (float32Bytes v) = 4"
  by (simp add: float32Bytes_def Let_def)

lemma length_embeddingBlob: "length (embeddingBlob e) = 4 * length e"
  by (induction e) (simp_all add: embeddingBlob_def length_float32Bytes)

lemma length_decodeEmbedding: "length (decodeEmbedding blob) = length blob"
  by (simp add: decodeEmbedding_def)

text \<open>
  A vector of \<open>n\<close> components is read back with \<open>4 * n\<close> components, so the first stored
  row makes the fallback scan throw when the query has the dimension the row was stored
  with.
\<close>

lemma scoreRows_throws:
  assumes "row_embedding row = Some (embeddingBlob e)" and "length e = length q" and "q \<noteq> []"
  shows "scoreRows q (row # rest) results = Inl (Error ''Vectors must have the same length'')"
proof -
  have "length q \<noteq> length (decodeEmbedding (embeddingBlob e))"
    using assms(2,3) by (simp add: length_decodeEmbedding length_embeddingBlob)
  then have "cosineSimilarity q (decodeEmbedding (embeddingBlob e)) =
               Inl (Error ''Vectors must have the same length'')"
    by (simp add: cosineSimilarity_def)
  with assms(1) show ?thesis by simp
qed

lemma selectRows_example:
  "selectRows \<lparr> rows = [exampleRow e], vecStatement = f \<rparr> None = [exampleRow e]"
  by (simp add: selectRows_def exampleRow_def)

lemma fallback_throws:
  assumes "length e = length q" and "q \<noteq> []"
  shows "cosineSimilaritySearch rt \<lparr> rows = [exampleRow e], vecStatement = f \<rparr> q k None =
           Inl (Error ''Vectors must have the same length'')"
proof -
  have "row_embedding (exampleRow e) = Some (embeddingBlob e)"
    by (simp add: exampleRow_def)
  from scoreRows_throws [OF this assms] show ?thesis
    by (simp add: cosineSimilaritySearch_def selectRows_example)
qed

lemma blob_zero_one: "embeddingBlob [Num 0, Num 1] = [0, 0, 0, 0, 0, 0, 128, 63]"
  by code_simp

lemma blob_minus_half_zero: "embeddingBlob [Num (- 1 / 2), Num 0] = [0, 0, 0, 191, 0, 0, 0, 0]"
  by code_simp

lemma one_minus_three_halves: "fsub (Num 1) (Num (3 / 2)) = Num (- 1 / 2)"
  by code_simp

lemma one_minus_three_quarters: "fsub (Num 1) (Num (3 / 4)) = Num (1 / 4)"
  by code_simp

lemma vectorSearch_indexedDb:
  "vectorSearch (indexedDb e d) q k ids =
     Inr [\<lparr> chunk = rowToChunk (exampleRow e), score = fsub (Num 1) d, distance = d \<rparr>]"
  by (simp add: vectorSearch_def indexedDb_def)

subsection \<open>The fallback scan with embeddings of the dimension of the query\<close>

text \<open>
  C9 does not hold of the code. \<open>cosineSimilarity\<close> does throw when the lengths differ, but
  the scan reads every stored embedding back with one component for each byte of its
  BLOB. The embedding \<open>[0, 1]\<close> is stored as the eight bytes 00 00 00 00 00 00 80 3f and read
  back as the eight numbers 0, 0, 0, 0, 0, 0, 128, 63. On a table holding that one row,
  \<open>cosineSimilaritySearch\<close> with the query \<open>[1, 0]\<close> of the same dimension 2 throws the error
  of the length check, and so does \<open>searchSimilar\<close> when \<open>vectorSearch\<close> has thrown.
\<close>

theorem equal_dimension_search_throws:
  "embeddingBlob [Num 0, Num 1] = [0, 0, 0, 0, 0, 0, 128, 63]
   \<and> decodeEmbedding (embeddingBlob [Num 0, Num 1])
       = [Num 0, Num 0, Num 0, Num 0, Num 0, Num 0, Num 128, Num 63]
   \<and> cosineSimilaritySearch (exampleRuntime JNull) (fallbackDb [Num 0, Num 1]) [Num 1, Num 0]
         10 None
       = Inl (Error ''Vectors must have the same length'')
   \<and> searchSimilar (exampleRuntime JNull) (fallbackDb [Num 0, Num 1]) [Num 1, Num 0] 10 None
       = Inl (Error ''Vectors must have the same length'')"
proof -
  have c: "cosineSimilaritySearch (exampleRuntime JNull) (fallbackDb [Num 0, Num 1])
             [Num 1, Num 0] 10 None = Inl (Error ''Vectors must have the same length'')"
    unfolding fallbackDb_def by (rule fallback_throws) simp_all
  have v: "vectorSearch (fallbackDb [Num 0, Num 1]) [Num 1, Num 0] 10 None =
             Inl (Error ''no such table: vec_embeddings'')"
    by (simp add: vectorSearch_def fallbackDb_def)
  have d: "decodeEmbedding (embeddingBlob [Num 0, Num 1])
             = [Num 0, Num 0, Num 0, Num 0, Num 0, Num 0, Num 128, Num 63]"
    by (simp add: blob_zero_one decodeEmbedding_def)
  from c v d blob_zero_one show ?thesis by (simp add: searchSimilar_def)
qed

subsection \<open>The scale of the scores on the two paths\<close>

text \<open>
  C4 does not hold of the code. Take a store that holds one chunk, stored with the
  embedding \<open>[-1/2, 0]\<close>, and the query \<open>[1, 0]\<close>, at distance \<open>3/2\<close> from it. On the
  accelerated path, where the index reports that distance, the result has the score
  \<open>1 - 3/2 = -1/2\<close>, which is below 0. On the fallback path the same store and query give
  no result on any scale: the embedding is read back with eight components and the scan
  throws the error of the length check.
\<close>

theorem search_paths_off_scale:
  "vectorSearch (indexedDb [Num (- 1 / 2), Num 0] (Num (3 / 2))) [Num 1, Num 0] 5 None
     = Inr [\<lparr> chunk = rowToChunk (exampleRow [Num (- 1 / 2), Num 0]),
               score = Num (- 1 / 2), distance = Num (3 / 2) \<rparr>]
   \<and> numLess (Num (- 1 / 2)) (Num 0)
   \<and> cosineSimilaritySearch (exampleRuntime JNull)
         (indexedDb [Num (- 1 / 2), Num 0] (Num (3 / 2))) [Num 1, Num 0] 5 None
       = Inl (Error ''Vectors must have the same length'')"
proof -
  have c: "cosineSimilaritySearch (exampleRuntime JNull)
             (indexedDb [Num (- 1 / 2), Num 0] (Num (3 / 2))) [Num 1, Num 0] 5 None
           = Inl (Error ''Vectors must have the same length'')"
    unfolding indexedDb_def by (rule fallback_throws) simp_all
  have v: "vectorSearch (indexedDb [Num (- 1 / 2), Num 0] (Num (3 / 2))) [Num 1, Num 0] 5 None
     = Inr [\<lparr> chunk = rowToChunk (exampleRow [Num (- 1 / 2), Num 0]),
               score = Num (- 1 / 2), distance = Num (3 / 2) \<rparr>]"
    by (simp add: vectorSearch_indexedDb one_minus_three_halves)
  have l: "numLess (Num (- 1 / 2)) (Num 0)" by (simp add: numLess_def)
  from v l c show ?thesis by (intro conjI)
qed

section \<open>Properties of OllamaClient\<close>

lemma attemptLoop_budget_exhausted:
  "\<not> attempt < retries \<Longrightarrow>
     attemptLoop svc jsonParse req retries attempt tr =
       (Inl (Error ''All retry attempts failed''), tr)"
  by (simp add: attemptLoop.simps)

lemma attemptLoop_returns:
  "attempt < retries \<Longrightarrow>
     \<exists>r. fst (attemptLoop svc jsonParse req retries attempt tr) = Inr r"
proof (induction svc jsonParse req retries attempt tr rule: attemptLoop.induct)
  case (1 svc jsonParse req retries attempt tr)
  obtain reply tr' where g: "client_generate svc req tr = (reply, tr')"
    by (cases "client_generate svc req tr")
  show ?case
  proof (cases "parseReply jsonParse reply")
    case (Some validated)
    with 1 g show ?thesis by (subst attemptLoop.simps) simp
  next
    case None
    show ?thesis
    proof (cases "attempt = retries - 1")
      case True
      with 1 g None show ?thesis by (subst attemptLoop.simps) simp
    next
      case False
      with "1.prems" have "attempt + 1 < retries" by simp
      from "1.IH" [OF "1.prems" g [symmetric] None False this]
      show ?thesis using "1.prems" g None False by (subst attemptLoop.simps) simp
    qed
  qed
qed

lemma attemptLoop_all_fail:
  "attempt < retries \<Longrightarrow>
   (\<forall>k < nat (retries - attempt).
       parseReply jsonParse (svc_generate svc (length (generateCalls tr) + k) req) = None) \<Longrightarrow>
   attemptLoop svc jsonParse req retries attempt tr =
     (Inr degradedResponse,
      tr \<lparr> generateCalls := generateCalls tr @ replicate (nat (retries - attempt)) req \<rparr>)"
proof (induction svc jsonParse req retries attempt tr rule: attemptLoop.induct)
  case (1 svc jsonParse req retries attempt tr)
  let ?tr' = "tr \<lparr> generateCalls := generateCalls tr @ [req] \<rparr>"
  have g: "client_generate svc req tr = (svc_generate svc (length (generateCalls tr)) req, ?tr')"
    by (simp add: client_generate_def)
  from "1.prems" have "0 < nat (retries - attempt)" by simp
  with "1.prems"(2) have
    None: "parseReply jsonParse (svc_generate svc (length (generateCalls tr)) req) = None"
    by (metis add.right_neutral)
  show ?case
  proof (cases "attempt = retries - 1")
    case True
    then have "nat (retries - attempt) = 1" by simp
    with "1.prems" g None True show ?thesis by (subst attemptLoop.simps) simp
  next
    case False
    with "1.prems" have lt: "attempt + 1 < retries" by simp
    have n: "nat (retries - attempt) = Suc (nat (retries - (attempt + 1)))"
      using lt by simp
    have "\<forall>k < nat (retries - (attempt + 1)).
            parseReply jsonParse (svc_generate svc (length (generateCalls ?tr') + k) req) = None"
    proof (intro allI impI)
      fix k assume "k < nat (retries - (attempt + 1))"
      then have "Suc k < nat (retries - attempt)" using n by simp
      from "1.prems"(2) [rule_format, OF this] show
        "parseReply jsonParse (svc_generate svc (length (generateCalls ?tr') + k) req) = None"
        by simp
    qed
    from "1.IH" [OF "1.prems"(1) g [symmetric] None False lt this]
    show ?thesis
      using "1.prems"(1) g None False n
      by (subst attemptLoop.simps) (simp add: replicate_append_same)
  qed
qed

text \<open>The schema on the reply whose claim has no evidence pointer, and on \<open>null\<close>.\<close>

lemma schema_pointerlessReply:
  "EvidenceTracedResponseSchema pointerlessReply = Some pointerlessResponse"
  by (simp add: EvidenceTracedResponseSchema_def pointerlessReply_def pointerlessResponse_def
        zArrayField_def zArray_def ClaimSchema_def zString_def zNumber01_def zNumber_def
        zStringItem_def)

lemma parseReply_null:
  "parseReply (JSON_parse (exampleRuntime JNull)) (svc_generate (exampleService ''reply'') n req)
     = None"
  by (simp add: parseReply_def exampleRuntime_def exampleService_def
        EvidenceTracedResponseSchema_def)

text \<open>
  C2 does not hold of the code. The schema declares \<open>evidencePointers\<close> as an array with no
  minimum length, so a reply whose only claim has an empty \<open>evidencePointers\<close> array passes
  validation: the first attempt returns it, with that claim, after one call and no retry.
\<close>

theorem generate_accepts_claim_without_pointers:
  "generateEvidenceTracedResponse (exampleService ''reply'')
     (JSON_parse (exampleRuntime pointerlessReply)) (ollama exampleConfig) ''q'' ''c'' 3
     emptyTrace
   = (Inr pointerlessResponse,
      \<lparr> generateCalls = [tracedRequest (ollama exampleConfig) ''q'' ''c''],
        embeddingCalls = [] \<rparr>)
   \<and> map evidencePointers (claims pointerlessResponse) = [[]]"
  by (simp add: generateEvidenceTracedResponse_def attemptLoop.simps client_generate_def
        exampleService_def exampleRuntime_def parseReply_def schema_pointerlessReply
        emptyTrace_def pointerlessResponse_def)

text \<open>
  C3. With a budget of at least one attempt, when every attempt fails (the call throws,
  the reply is not JSON, or the schema rejects it), \<open>generateEvidenceTracedResponse\<close>
  makes exactly \<open>retries\<close> calls and returns the degraded response: no claims, the summary
  of insufficient evidence, confidence 0 and the evidence gap naming the failure. It
  returns a value, not an error.
\<close>

theorem generate_degrades_when_all_attempts_fail:
  assumes "1 \<le> retries"
    and "\<forall>k < nat retries.
           parseReply jsonParse
             (svc_generate svc (length (generateCalls tr) + k)
                (tracedRequest cfg question context)) = None"
  shows "generateEvidenceTracedResponse svc jsonParse cfg question context retries tr =
           (Inr degradedResponse,
            tr \<lparr> generateCalls := generateCalls tr
                    @ replicate (nat retries) (tracedRequest cfg question context) \<rparr>)
         \<and> claims degradedResponse = []
         \<and> summary degradedResponse = ''Insufficient evidence to make reliable claims''
         \<and> overallConfidence degradedResponse = 0
         \<and> evidenceGaps degradedResponse
             = Some [''Unable to process context or generate valid response'']"
  using assms
    attemptLoop_all_fail [of 0 retries jsonParse svc tr "tracedRequest cfg question context"]
  by (simp add: generateEvidenceTracedResponse_def degradedResponse_def)

text \<open>Three attempts that all answer \<open>null\<close>: three calls, then the degraded response.\<close>

theorem generate_degrades_when_all_attempts_fail_witness:
  "generateEvidenceTracedResponse (exampleService ''reply'') (JSON_parse (exampleRuntime JNull))
     (ollama exampleConfig) ''q'' ''c'' 3 emptyTrace
   = (Inr degradedResponse,
      \<lparr> generateCalls = replicate 3 (tracedRequest (ollama exampleConfig) ''q'' ''c''),
        embeddingCalls = [] \<rparr>)"
proof -
  have b: "(1 :: int) \<le> 3" by simp
  have f: "\<forall>k < nat 3.
      parseReply (JSON_parse (exampleRuntime JNull))
        (svc_generate (exampleService ''reply'') (length (generateCalls emptyTrace) + k)
           (tracedRequest (ollama exampleConfig) ''q'' ''c'')) = None"
    by (simp add: parseReply_null)
  from generate_degrades_when_all_attempts_fail [OF b f]
  show ?thesis by (simp add: emptyTrace_def)
qed

text \<open>
  C10. With a budget of zero or less \<open>generateEvidenceTracedResponse\<close> makes no call and
  throws \<open>All retry attempts failed\<close>; it returns a response, degraded or not, only with a
  budget of at least one attempt, and with such a budget it always returns one.
\<close>

theorem generate_zero_budget_throws:
  "(retries \<le> 0 \<longrightarrow>
      generateEvidenceTracedResponse svc jsonParse cfg question context retries tr =
        (Inl (Error ''All retry attempts failed''), tr))
   \<and> (fst (generateEvidenceTracedResponse svc jsonParse cfg question context retries tr)
         = Inr r \<longrightarrow> 1 \<le> retries)
   \<and> (1 \<le> retries \<longrightarrow>
        (\<exists>r'. fst (generateEvidenceTracedResponse svc jsonParse cfg question context retries tr)
                 = Inr r'))"
proof (intro conjI impI)
  assume "retries \<le> 0"
  then show "generateEvidenceTracedResponse svc jsonParse cfg question context retries tr =
        (Inl (Error ''All retry attempts failed''), tr)"
    by (simp add: generateEvidenceTracedResponse_def attemptLoop_budget_exhausted)
next
  assume r: "fst (generateEvidenceTracedResponse svc jsonParse cfg question context retries tr)
         = Inr r"
  show "1 \<le> retries"
  proof (rule ccontr)
    assume "\<not> 1 \<le> retries"
    then have "\<not> 0 < retries" by simp
    with r show False
      by (simp add: generateEvidenceTracedResponse_def attemptLoop_budget_exhausted)
  qed
next
  assume "1 \<le> retries"
  then have "0 < retries" by simp
  from attemptLoop_returns [OF this]
  show "\<exists>r'. fst (generateEvidenceTracedResponse svc jsonParse cfg question context retries tr)
                 = Inr r'"
    by (simp add: generateEvidenceTracedResponse_def)
qed

text \<open>
  With the budget 0 a server that would answer is never called, and the error is thrown;
  with the budget 1 the same failing reply gives the degraded response.
\<close>

theorem generate_zero_budget_throws_witness:
  "generateEvidenceTracedResponse (exampleService ''reply'') (JSON_parse (exampleRuntime JNull))
     (ollama exampleConfig) ''q'' ''c'' 0 emptyTrace
   = (Inl (Error ''All retry attempts failed''), emptyTrace)
   \<and> (\<exists>r'. fst (generateEvidenceTracedResponse (exampleService ''reply'')
                  (JSON_parse (exampleRuntime JNull)) (ollama exampleConfig) ''q'' ''c'' 1
                  emptyTrace) = Inr r')"
proof -
  have z: "(0 :: int) \<le> 0" and o: "(1 :: int) \<le> 1" by simp_all
  from generate_zero_budget_throws
         [of 0 "exampleService ''reply''" "JSON_parse (exampleRuntime JNull)"
             "ollama exampleConfig" "''q''" "''c''" emptyTrace] z
  have a: "generateEvidenceTracedResponse (exampleService ''reply'')
     (JSON_parse (exampleRuntime JNull)) (ollama exampleConfig) ''q'' ''c'' 0 emptyTrace
   = (Inl (Error ''All retry attempts failed''), emptyTrace)"
    by blast
  from generate_zero_budget_throws
         [of 1 "exampleService ''reply''" "JSON_parse (exampleRuntime JNull)"
             "ollama exampleConfig" "''q''" "''c''" emptyTrace] o
  have b: "\<exists>r'. fst (generateEvidenceTracedResponse (exampleService ''reply'')
                  (JSON_parse (exampleRuntime JNull)) (ollama exampleConfig) ''q'' ''c'' 1
                  emptyTrace) = Inr r'"
    by blast
  from a b show ?thesis by (intro conjI)
qed

section \<open>Properties of RAGPipeline\<close>

subsection \<open>The short circuit of \<open>query\<close>\<close>

text \<open>
  C1. When the embedding of the question and the search succeed and no retrieved chunk
  has a score at or above \<open>confidenceThreshold\<close>, \<open>query\<close> returns the empty-evidence
  response (no claims, the summary that no relevant evidence was found, confidence 0)
  with no retrieved chunks, and no call of \<open>client.generate\<close> is made: the calls recorded
  in the trace are those recorded before \<open>query\<close>.
\<close>

theorem query_no_evidence_short_circuit:
  assumes "generateEmbedding svc (ollama cfg) question tr = (Inr qe, tr1)"
    and "searchSimilar rt db (emb_embedding qe)
           (orDefault (Option.bind options opt_topK) (topK (retrieval cfg))) scope
         = Inr retrieved"
    and "\<forall>r \<in> set retrieved. \<not> numGe (score r) (confidenceThreshold (retrieval cfg))"
  shows "query rt svc cfg db question scope options tr =
           (Inr \<lparr> response = emptyEvidenceResponse, retrievedChunks = [],
                   rerankedChunks = None \<rparr>, tr1)
         \<and> generateCalls tr1 = generateCalls tr
         \<and> claims emptyEvidenceResponse = []
         \<and> summary emptyEvidenceResponse = ''No relevant evidence found for the query''
         \<and> overallConfidence emptyEvidenceResponse = 0"
proof -
  from assms(3) have f:
    "filter (\<lambda>result. numGe (score result) (confidenceThreshold (retrieval cfg))) retrieved = []"
    by (simp add: filter_empty_conv)
  from assms(1) have t: "generateCalls tr1 = generateCalls tr"
    by (auto simp: generateEmbedding_def client_embeddings_def split: sum.splits)
  from assms(1,2) f t show ?thesis
    by (simp add: query_def queryBody_def emptyEvidenceResponse_def)
qed

text \<open>
  A corpus whose best match is at distance \<open>3/4\<close>, so has the score \<open>1/4\<close>, under the
  threshold \<open>1/2\<close>: the query returns the empty-evidence response and the trace holds the
  embedding call only.
\<close>

theorem query_no_evidence_short_circuit_witness:
  "query (exampleRuntime pointerlessReply) (exampleService ''reply'') exampleConfig
     (indexedDb [Num 0, Num 1] (Num (3 / 4))) ''q'' None None emptyTrace
   = (Inr \<lparr> response = emptyEvidenceResponse, retrievedChunks = [], rerankedChunks = None \<rparr>,
      \<lparr> generateCalls = [], embeddingCalls = [(''bge-small-en'', ''q'')] \<rparr>)"
proof -
  let ?tr1 = "\<lparr> generateCalls = [], embeddingCalls = [(''bge-small-en'', ''q'')] \<rparr>"
  let ?qe = "\<lparr> emb_embedding = [Num 1, Num 0], emb_model = ''bge-small-en'',
               emb_prompt = ''q'' \<rparr>"
  let ?rs = "[\<lparr> chunk = rowToChunk (exampleRow [Num 0, Num 1]), score = Num (1 / 4),
               distance = Num (3 / 4) \<rparr>]"
  have e: "generateEmbedding (exampleService ''reply'') (ollama exampleConfig) ''q'' emptyTrace
             = (Inr ?qe, ?tr1)"
    by (simp add: generateEmbedding_def client_embeddings_def exampleService_def
          exampleConfig_def emptyTrace_def)
  have s: "searchSimilar (exampleRuntime pointerlessReply) (indexedDb [Num 0, Num 1] (Num (3 / 4)))
             (emb_embedding ?qe)
             (orDefault (Option.bind None opt_topK) (topK (retrieval exampleConfig))) None
           = Inr ?rs"
    by (simp add: searchSimilar_def vectorSearch_indexedDb one_minus_three_quarters)
  have f: "\<forall>r \<in> set ?rs. \<not> numGe (score r) (confidenceThreshold (retrieval exampleConfig))"
    by (simp add: exampleConfig_def numGe_def numEq_def numLess_def isZero_def)
  from query_no_evidence_short_circuit [OF e s f]
  show ?thesis by simp
qed

subsection \<open>Evidence reconciliation\<close>

text \<open>
  C7 does not hold of the code. The guards for the page and for the snippet each test the
  field they assign, but the guard for the line range tests \<open>lineStart\<close> only and then
  assigns \<open>lineStart\<close> and \<open>lineEnd\<close>. A pointer to \<open>doc.txt\<close> with page 2, no first line,
  last line 25 and a snippet, reconciled with the chunk of \<open>doc.txt\<close> at page 4, lines 3 to
  7, comes out with the lines 3 to 7: the last line 25 that was present is overwritten.
\<close>

theorem enhance_overwrites_present_lineEnd:
  "enhanceEvidencePointers (citing (Some 2) None (Some 25) (Some ''quote'')) exampleContext =
     citing (Some 2) (Some 3) (Some 7) (Some ''quote'')"
  by (simp add: enhanceEvidencePointers_def citing_def exampleContext_def enhancePointer_def
        rowToChunk_def exampleRow_def exampleMetadata_def truthyNumber_def truthyString_def
        Let_def)

end
